theory Spec2Isabelle
  imports Complex_Main
begin

section \<open>The fee ledger of main.py\<close>

text \<open>
  The ledger is the SQLite file \<^verbatim>\<open>college_fee.db\<close> with the two tables that
  \<^verbatim>\<open>init_db\<close> creates, and the module-level helpers that read and write it. Every
  helper opens the file, runs one statement, commits and closes, so the file is modelled
  as a state value that each helper takes and, when it writes, returns updated.

  The columns declared \<^verbatim>\<open>REAL\<close> hold Python floats. A float that is a number
  is modelled as an exact real: rounding and the infinities are outside this model.
  NaN is modelled where the program can receive it, in the amount of a payment.
\<close>

subsection \<open>Floats\<close>

text \<open>
  A Python float as \<^verbatim>\<open>float()\<close> returns it: NaN (for a text such as
  \<^verbatim>\<open>nan\<close>) or a number.
\<close>

datatype pyfloat = NaN | Num real

text \<open>
  Python's \<^verbatim>\<open>a > b\<close> for a float \<open>a\<close> and a number \<open>b\<close>: every comparison
  with NaN is false.
\<close>

definition float_gt :: "pyfloat \<Rightarrow> real \<Rightarrow> bool" where
  "float_gt a b = (case a of NaN \<Rightarrow> False | Num x \<Rightarrow> b < x)"

text \<open>
  A float bound to a statement parameter: SQLite has no NaN and stores NULL
  (\<open>None\<close>) in its place.
\<close>

definition bind_float :: "pyfloat \<Rightarrow> real option" where
  "bind_float a = (case a of NaN \<Rightarrow> None | Num x \<Rightarrow> Some x)"

subsection \<open>Tables\<close>

text \<open>
  \<^verbatim>\<open>students(student_id TEXT PRIMARY KEY, name, class, total_fee, photo_path)\<close>:
  the primary key makes the table a map from \<^verbatim>\<open>student_id\<close> to the other four
  columns. \<^verbatim>\<open>photo_path\<close> is nullable (\<^verbatim>\<open>save_student\<close> passes \<^verbatim>\<open>None\<close> when
  no photo was chosen); \<^verbatim>\<open>total_fee\<close> is \<^verbatim>\<open>NOT NULL\<close>, so it is always a number.
\<close>

record student =
  name :: string
  student_class :: string
  total_fee :: real
  photo_path :: "string option"

text \<open>
  \<^verbatim>\<open>payments(receipt_no INTEGER PRIMARY KEY AUTOINCREMENT, student_id, amount_paid,
  payment_date, mode_of_payment)\<close>. The rows are kept in insertion order.
  \<^verbatim>\<open>amount_paid\<close> is nullable: \<open>None\<close> is NULL, which Python reads back as
  \<^verbatim>\<open>None\<close>.
\<close>

record payment =
  receipt_no :: int
  student_id :: string
  amount_paid :: "real option"
  payment_date :: string
  mode_of_payment :: string

text \<open>
  \<^verbatim>\<open>AUTOINCREMENT\<close> makes SQLite keep, in its table \<^verbatim>\<open>sqlite_sequence\<close>, the
  largest \<^verbatim>\<open>receipt_no\<close> the table has ever held; it is part of the file.
\<close>

record db =
  students :: "string \<rightharpoonup> student"
  payments :: "payment list"
  sqlite_sequence :: int

subsection \<open>Errors\<close>

text \<open>
  The two exceptions the ledger code can raise: SQLite refusing an insert because the
  largest rowid has been used (\<^verbatim>\<open>sqlite3.OperationalError\<close>, SQLITE\_FULL), and
  Python refusing to compare a float with \<^verbatim>\<open>None\<close>.
\<close>

datatype error = SQLITE_FULL | TypeError

subsection \<open>init\_db\<close>

definition empty_db :: db where
  "empty_db = \<lparr> students = Map.empty, payments = [], sqlite_sequence = 0 \<rparr>"

text \<open>
  Both statements are \<^verbatim>\<open>CREATE TABLE IF NOT EXISTS\<close>: a file that is already there
  is left as it is, a missing one is created with two empty tables.
\<close>

definition init_db :: "db option \<Rightarrow> db" where
  "init_db file = (case file of None \<Rightarrow> empty_db | Some d \<Rightarrow> d)"

subsection \<open>Students\<close>

text \<open>
  \<^verbatim>\<open>INSERT OR REPLACE INTO students ... VALUES (?,?,?,?,?)\<close>: the row with this
  \<^verbatim>\<open>student_id\<close>, if any, is replaced by the new one. The statement names no other
  table, and the connection never switches foreign keys on. The fee is taken to be a
  number: with a NaN, which SQLite binds as NULL, the \<^verbatim>\<open>NOT NULL\<close> column refuses
  the insert and nothing is stored.
\<close>

definition add_student_db :: "db \<Rightarrow> string \<Rightarrow> string \<Rightarrow> string \<Rightarrow> real \<Rightarrow> string option \<Rightarrow> db" where
  "add_student_db d sid nm cls fee photo =
     d\<lparr> students := (students d)(sid \<mapsto>
          \<lparr> name = nm, student_class = cls, total_fee = fee, photo_path = photo \<rparr>) \<rparr>"

text \<open>\<^verbatim>\<open>get_student\<close> returns the row as a tuple headed by the id, or \<^verbatim>\<open>None\<close>.\<close>

definition get_student :: "db \<Rightarrow> string \<Rightarrow> (string \<times> student) option" where
  "get_student d sid = (case students d sid of None \<Rightarrow> None | Some s \<Rightarrow> Some (sid, s))"

subsection \<open>Payments\<close>

definition MAX_ROWID :: int where
  "MAX_ROWID = 9223372036854775807"

fun max_rowid :: "payment list \<Rightarrow> int option" where
  "max_rowid [] = None"
| "max_rowid (p # ps) =
     (case max_rowid ps of None \<Rightarrow> Some (receipt_no p)
      | Some m \<Rightarrow> Some (max (receipt_no p) m))"

text \<open>
  The rowid SQLite gives to an insert into an \<^verbatim>\<open>AUTOINCREMENT\<close> table that names
  no rowid: one more than the largest rowid in the table (1 for an empty table), raised
  to one more than \<^verbatim>\<open>sqlite_sequence\<close> if that is larger. Once the largest 64-bit
  rowid has been used the insert fails with SQLITE\_FULL (\<open>None\<close> here).
\<close>

definition new_rowid :: "db \<Rightarrow> int option" where
  "new_rowid d =
     (case max_rowid (payments d) of
        None \<Rightarrow>
          (if MAX_ROWID \<le> sqlite_sequence d then None
           else Some (max 1 (sqlite_sequence d + 1)))
      | Some m \<Rightarrow>
          (if MAX_ROWID \<le> m \<or> MAX_ROWID \<le> sqlite_sequence d then None
           else Some (max (m + 1) (sqlite_sequence d + 1))))"

text \<open>
  \<^verbatim>\<open>add_payment_db\<close>: one \<^verbatim>\<open>INSERT INTO payments\<close> of the four given columns, and
  \<^verbatim>\<open>c.lastrowid\<close> returned. Nothing is checked: not the student, not the amount.
  The amount is the float the caller passes, stored as SQLite binds it.
\<close>

definition add_payment_db :: "db \<Rightarrow> string \<Rightarrow> pyfloat \<Rightarrow> string \<Rightarrow> string \<Rightarrow> error + (int \<times> db)" where
  "add_payment_db d sid amt date mode =
     (case new_rowid d of
        None \<Rightarrow> Inl SQLITE_FULL
      | Some r \<Rightarrow>
          Inr (r, d\<lparr> payments := payments d @
                       [\<lparr> receipt_no = r, student_id = sid, amount_paid = bind_float amt,
                          payment_date = date, mode_of_payment = mode \<rparr>],
                     sqlite_sequence := r \<rparr>))"

text \<open>\<^verbatim>\<open>WHERE student_id=?\<close> on the payments table.\<close>

definition payments_of :: "db \<Rightarrow> string \<Rightarrow> payment list" where
  "payments_of d sid = filter (\<lambda>p. student_id p = sid) (payments d)"

text \<open>\<^verbatim>\<open>ORDER BY receipt_no DESC\<close>.\<close>

definition order_by_receipt_no_desc :: "payment list \<Rightarrow> payment list" where
  "order_by_receipt_no_desc rows = sort_key (\<lambda>p. - receipt_no p) rows"

text \<open>\<^verbatim>\<open>c.fetchone()\<close>: the first row of the result, or \<^verbatim>\<open>None\<close>.\<close>

definition fetchone :: "'a list \<Rightarrow> 'a option" where
  "fetchone rows = (case rows of [] \<Rightarrow> None | r # _ \<Rightarrow> Some r)"

definition get_last_payment :: "db \<Rightarrow> string \<Rightarrow> payment option" where
  "get_last_payment d sid =
     fetchone (take 1 (order_by_receipt_no_desc (payments_of d sid)))"

subsection \<open>Balance\<close>

text \<open>The values of a column that are not NULL.\<close>

fun non_null :: "'a option list \<Rightarrow> 'a list" where
  "non_null [] = []"
| "non_null (None # vs) = non_null vs"
| "non_null (Some x # vs) = x # non_null vs"

text \<open>
  \<^verbatim>\<open>SELECT SUM(x)\<close> adds the values that are not NULL, and is NULL when there is
  none.
\<close>

definition sql_sum :: "real option list \<Rightarrow> real option" where
  "sql_sum vs = (if non_null vs = [] then None else Some (sum_list (non_null vs)))"

text \<open>Python's \<^verbatim>\<open>v or 0.0\<close>: \<^verbatim>\<open>None\<close> and \<^verbatim>\<open>0.0\<close> are falsy.\<close>

definition or_zero :: "real option \<Rightarrow> real" where
  "or_zero v = (case v of None \<Rightarrow> 0 | Some x \<Rightarrow> if x = 0 then 0 else x)"

definition get_total_paid :: "db \<Rightarrow> string \<Rightarrow> real" where
  "get_total_paid d sid = or_zero (sql_sum (map amount_paid (payments_of d sid)))"

text \<open>\<^verbatim>\<open>get_total_due\<close> returns \<^verbatim>\<open>None\<close> when the student is not found.\<close>

definition get_total_due :: "db \<Rightarrow> string \<Rightarrow> real option" where
  "get_total_due d sid =
     (let total_paid = or_zero (Some (get_total_paid d sid)) in
      case students d sid of
        None \<Rightarrow> None
      | Some s \<Rightarrow> Some (total_fee s - total_paid))"

subsection \<open>The payment handler\<close>

text \<open>
  What the amount field holds when its handler runs, after \<^verbatim>\<open>strip()\<close>: nothing,
  a text on which \<^verbatim>\<open>float()\<close> raises, or a text that \<^verbatim>\<open>float()\<close> reads as the
  given float. The field has no validator, so any text can be in it.
\<close>

datatype num_text = Blank | Malformed | Number pyfloat

datatype pay_outcome =
    No_student
  | Enter_amount
  | Enter_numeric
  | Exceeds_remaining real
  | Raised error
  | Recorded int "payment option"

text \<open>
  \<^verbatim>\<open>record_payment_and_receipt\<close>, up to the insert and the read-back of the payment
  that is handed to the receipt generator. \<open>current_student\<close> is the row that
  \<^verbatim>\<open>fetch_student_for_payment\<close> left in the window (or nothing); \<open>mode\<close> is the
  combo box text and \<open>payment_date\<close> the formatted clock reading.
\<close>

definition record_payment_and_receipt ::
    "db \<Rightarrow> (string \<times> student) option \<Rightarrow> num_text \<Rightarrow> string \<Rightarrow> string \<Rightarrow> pay_outcome \<times> db" where
  "record_payment_and_receipt d current_student amt_text mode date =
     (case current_student of
        None \<Rightarrow> (No_student, d)
      | Some (sid, _) \<Rightarrow>
          (case amt_text of
             Blank \<Rightarrow> (Enter_amount, d)
           | Malformed \<Rightarrow> (Enter_numeric, d)
           | Number amt \<Rightarrow>
               (case get_total_due d sid of
                  None \<Rightarrow> (Raised TypeError, d)
                | Some remaining_fee \<Rightarrow>
                    if float_gt amt remaining_fee then (Exceeds_remaining remaining_fee, d)
                    else (case add_payment_db d sid amt date mode of
                            Inl e \<Rightarrow> (Raised e, d)
                          | Inr (receipt, d') \<Rightarrow>
                              (Recorded receipt (get_last_payment d' sid), d')))))"

text \<open>One press of the payment button: the window's student, the amount text, mode, date.\<close>

type_synonym attempt = "(string \<times> student) option \<times> num_text \<times> string \<times> string"

fun record_all :: "db \<Rightarrow> attempt list \<Rightarrow> db" where
  "record_all d [] = d"
| "record_all d ((cur, amt_text, mode, date) # rest) =
     record_all (snd (record_payment_and_receipt d cur amt_text mode date)) rest"

text \<open>One call of \<^verbatim>\<open>add_payment_db\<close>: student id, amount, date, mode.\<close>

type_synonym insert_call = "string \<times> pyfloat \<times> string \<times> string"

text \<open>
  A run of \<^verbatim>\<open>add_payment_db\<close> calls, collecting the receipt numbers in call order;
  an exception ends the run.
\<close>

fun add_payments :: "db \<Rightarrow> insert_call list \<Rightarrow> error + (int list \<times> db)" where
  "add_payments d [] = Inr ([], d)"
| "add_payments d ((sid, amt, date, mode) # rest) =
     (case add_payment_db d sid amt date mode of
        Inl e \<Rightarrow> Inl e
      | Inr (r, d') \<Rightarrow>
          (case add_payments d' rest of
             Inl e \<Rightarrow> Inl e
           | Inr (rs, d'') \<Rightarrow> Inr (r # rs, d'')))"

subsection \<open>Example ledgers\<close>

text \<open>
  The scenario of the specification: student S1 with a total fee of 1000 pays 400, tries
  650, then pays 600.
\<close>

definition asha :: student where
  "asha = \<lparr> name = ''Asha'', student_class = ''X'', total_fee = 1000, photo_path = None \<rparr>"

definition ledger_S1 :: db where
  "ledger_S1 = add_student_db (init_db None) ''S1'' ''Asha'' ''X'' 1000 None"

definition scenario :: "attempt list" where
  "scenario =
     [(Some (''S1'', asha), Number (Num 400), ''Cash'', ''2024-04-01 10:00:00''),
      (Some (''S1'', asha), Number (Num 650), ''Cash'', ''2024-04-02 10:00:00''),
      (Some (''S1'', asha), Number (Num 600), ''UPI'', ''2024-04-03 10:00:00'')]"

definition receipt_1 :: payment where
  "receipt_1 = \<lparr> receipt_no = 1, student_id = ''S1'', amount_paid = Some 400,
                  payment_date = ''2024-04-01 10:00:00'', mode_of_payment = ''Cash'' \<rparr>"

definition receipt_2 :: payment where
  "receipt_2 = \<lparr> receipt_no = 2, student_id = ''S1'', amount_paid = Some 600,
                  payment_date = ''2024-04-03 10:00:00'', mode_of_payment = ''UPI'' \<rparr>"

text \<open>The ledger the scenario ends in.\<close>

definition ledger_paid :: db where
  "ledger_paid = ledger_S1\<lparr> payments := [receipt_1, receipt_2], sqlite_sequence := 2 \<rparr>"

text \<open>Two inserts: one for S2, who is not in the students table, and one for S1.\<close>

definition interleaved :: "insert_call list" where
  "interleaved =
     [(''S2'', Num 50, ''2024-04-04 09:00:00'', ''Cheque''),
      (''S1'', Num 25, ''2024-04-04 09:05:00'', ''Cash'')]"

definition receipt_3 :: payment where
  "receipt_3 = \<lparr> receipt_no = 3, student_id = ''S2'', amount_paid = Some 50,
                  payment_date = ''2024-04-04 09:00:00'', mode_of_payment = ''Cheque'' \<rparr>"

definition receipt_4 :: payment where
  "receipt_4 = \<lparr> receipt_no = 4, student_id = ''S1'', amount_paid = Some 25,
                  payment_date = ''2024-04-04 09:05:00'', mode_of_payment = ''Cash'' \<rparr>"

text \<open>The ledger after the first of these inserts: S2 has a payment and no student row.\<close>

definition ledger_orphan :: db where
  "ledger_orphan = ledger_paid\<lparr> payments := [receipt_1, receipt_2, receipt_3],
                                 sqlite_sequence := 3 \<rparr>"

text \<open>A student whose total fee is 0.\<close>

definition ravi :: student where
  "ravi = \<lparr> name = ''Ravi'', student_class = ''IX'', total_fee = 0, photo_path = None \<rparr>"

definition ledger_S0 :: db where
  "ledger_S0 = add_student_db (init_db None) ''S0'' ''Ravi'' ''IX'' 0 None"

lemmas ledger_defs =
  asha_def ledger_S1_def scenario_def receipt_1_def receipt_2_def ledger_paid_def
  interleaved_def receipt_3_def receipt_4_def ledger_orphan_def ravi_def ledger_S0_def
  init_db_def empty_db_def add_student_db_def get_student_def MAX_ROWID_def new_rowid_def
  add_payment_db_def payments_of_def order_by_receipt_no_desc_def fetchone_def
  get_last_payment_def sql_sum_def or_zero_def get_total_paid_def get_total_due_def
  float_gt_def bind_float_def record_payment_and_receipt_def

section \<open>Properties\<close>

subsection \<open>Receipt numbers\<close>

lemma max_rowid_None_iff: "max_rowid ps = None \<longleftrightarrow> ps = []"
  by (cases ps) (simp_all split: option.splits)

lemma max_rowid_ge: "max_rowid ps = Some m \<Longrightarrow> p \<in> set ps \<Longrightarrow> receipt_no p \<le> m"
  by (induction ps arbitrary: m) (auto split: option.splits simp: max_rowid_None_iff)

lemma max_rowid_less:
  "\<forall>p \<in> set ps. receipt_no p < b \<Longrightarrow> max_rowid ps = Some m \<Longrightarrow> m < b"
  by (induction ps arbitrary: m) (auto split: option.splits)

text \<open>A new rowid is above the sequence value and above every row of the table.\<close>

lemma new_rowid_above:
  assumes "new_rowid d = Some r"
  shows "sqlite_sequence d < r" and "r \<le> MAX_ROWID"
    and "\<And>p. p \<in> set (payments d) \<Longrightarrow> receipt_no p < r"
proof -
  show "sqlite_sequence d < r" using assms
    by (auto simp: new_rowid_def split: option.splits if_splits)
  show "r \<le> MAX_ROWID" using assms
    by (auto simp: new_rowid_def MAX_ROWID_def split: option.splits if_splits)
  fix p assume "p \<in> set (payments d)"
  then show "receipt_no p < r" using assms
    by (auto simp: new_rowid_def max_rowid_None_iff split: option.splits if_splits
             dest: max_rowid_ge)
qed

text \<open>The insert succeeds as long as the largest rowid has not been used.\<close>

lemma new_rowid_available:
  assumes "sqlite_sequence d < MAX_ROWID" and "\<forall>p \<in> set (payments d). receipt_no p < MAX_ROWID"
  shows "\<exists>r. new_rowid d = Some r"
  using assms max_rowid_less[of "payments d" MAX_ROWID]
  by (auto simp: new_rowid_def split: option.splits)

lemma add_payment_db_succeeds:
  assumes "sqlite_sequence d < MAX_ROWID" and "\<forall>p \<in> set (payments d). receipt_no p < MAX_ROWID"
  shows "\<exists>r d'. add_payment_db d sid amt date mode = Inr (r, d')"
  using new_rowid_available[OF assms] by (auto simp: add_payment_db_def)

lemma add_payment_db_Inr:
  assumes "add_payment_db d sid amt date mode = Inr (r, d')"
  shows "new_rowid d = Some r"
    and "d' = d\<lparr> payments := payments d @
                   [\<lparr> receipt_no = r, student_id = sid, amount_paid = bind_float amt,
                      payment_date = date, mode_of_payment = mode \<rparr>],
                 sqlite_sequence := r \<rparr>"
  using assms by (auto simp: add_payment_db_def split: option.splits)

lemma add_payments_props:
  "add_payments d calls = Inr (rs, d') \<Longrightarrow>
     sorted_wrt (<) rs \<and>
     (\<forall>r \<in> set rs. sqlite_sequence d < r \<and> (\<forall>p \<in> set (payments d). receipt_no p < r)) \<and>
     students d' = students d \<and>
     take (length (payments d)) (payments d') = payments d \<and>
     map receipt_no (drop (length (payments d)) (payments d')) = rs"
proof (induction d calls arbitrary: rs d' rule: add_payments.induct)
  case (1 d)
  then show ?case by simp
next
  case (2 d sid amt date mode rest)
  from "2.prems" obtain r d1 rs1 where
    step: "add_payment_db d sid amt date mode = Inr (r, d1)" and
    rest: "add_payments d1 rest = Inr (rs1, d')" and
    rs: "rs = r # rs1"
    by (auto split: sum.splits prod.splits)
  note nr = add_payment_db_Inr[OF step]
  note above = new_rowid_above[OF nr(1)]
  have d1p: "payments d1 = payments d @
      [\<lparr> receipt_no = r, student_id = sid, amount_paid = bind_float amt,
         payment_date = date, mode_of_payment = mode \<rparr>]"
    and d1s: "sqlite_sequence d1 = r" and d1st: "students d1 = students d"
    using nr(2) by simp_all
  note IH = "2.IH"[OF step refl rest]
  have gt: "\<forall>x \<in> set rs1. r < x" using IH d1s by simp
  have "sorted_wrt (<) rs" using IH gt rs by simp
  moreover have "\<forall>x \<in> set rs. sqlite_sequence d < x \<and> (\<forall>p \<in> set (payments d). receipt_no p < x)"
    using IH gt rs above d1p by fastforce
  moreover have "students d' = students d" using IH d1st by simp
  moreover have tk: "take (length (payments d1)) (payments d') = payments d1" using IH by simp
  have "take (length (payments d)) (payments d') = payments d"
  proof -
    have "take (length (payments d)) (take (length (payments d1)) (payments d')) = payments d"
      unfolding tk by (simp add: d1p)
    then show ?thesis by (simp add: d1p min_def)
  qed
  moreover have "drop (length (payments d)) (payments d') =
      \<lparr> receipt_no = r, student_id = sid, amount_paid = bind_float amt,
        payment_date = date, mode_of_payment = mode \<rparr> # drop (length (payments d1)) (payments d')"
  proof -
    have "payments d' = payments d1 @ drop (length (payments d1)) (payments d')"
      using tk by (metis append_take_drop_id)
    then have "payments d' = payments d @
        (\<lparr> receipt_no = r, student_id = sid, amount_paid = bind_float amt,
           payment_date = date, mode_of_payment = mode \<rparr> # drop (length (payments d1)) (payments d'))"
      by (simp add: d1p)
    then show ?thesis by (metis append_eq_conv_conj)
  qed
  ultimately show ?case using IH rs by simp
qed

text \<open>
  A run of inserts does not fail while the numbers it needs are below the largest rowid.
\<close>

lemma new_rowid_le:
  assumes "new_rowid d = Some r" and "0 \<le> sqlite_sequence d" and "sqlite_sequence d < b"
    and "\<forall>p \<in> set (payments d). receipt_no p < b"
  shows "r \<le> b"
  using assms max_rowid_less[of "payments d" b]
  by (auto simp: new_rowid_def split: option.splits if_splits)

lemma add_payments_succeeds:
  assumes "0 \<le> sqlite_sequence d"
    and "sqlite_sequence d + int (length calls) \<le> MAX_ROWID"
    and "\<forall>p \<in> set (payments d). receipt_no p + int (length calls) \<le> MAX_ROWID"
  shows "\<exists>rs d'. add_payments d calls = Inr (rs, d')"
  using assms
proof (induction d calls rule: add_payments.induct)
  case (1 d)
  then show ?case by simp
next
  case (2 d sid amt date mode rest)
  let ?b = "MAX_ROWID - int (length rest)"
  have seq: "sqlite_sequence d < ?b" using "2.prems"(2) by simp
  have rows: "\<forall>p \<in> set (payments d). receipt_no p < ?b" using "2.prems"(3) by fastforce
  have "sqlite_sequence d < MAX_ROWID" and "\<forall>p \<in> set (payments d). receipt_no p < MAX_ROWID"
    using seq rows by fastforce+
  then obtain r d1 where step: "add_payment_db d sid amt date mode = Inr (r, d1)"
    using add_payment_db_succeeds by blast
  note nr = add_payment_db_Inr[OF step]
  have r: "r \<le> ?b" using new_rowid_le[OF nr(1) "2.prems"(1) seq rows] .
  have "0 \<le> sqlite_sequence d1" using nr(2) new_rowid_above(1)[OF nr(1)] "2.prems"(1) by simp
  moreover have "sqlite_sequence d1 + int (length rest) \<le> MAX_ROWID" using nr(2) r by simp
  moreover have "\<forall>p \<in> set (payments d1). receipt_no p + int (length rest) \<le> MAX_ROWID"
    using nr(2) r rows by fastforce
  ultimately obtain rs d' where "add_payments d1 rest = Inr (rs, d')"
    using "2.IH"[OF step refl] by blast
  then show ?case using step by simp
qed

subsection \<open>The last payment\<close>

text \<open>The row whose key is strictly least comes first after sorting.\<close>

lemma head_sort_key_least:
  assumes "x \<in> set xs" and "\<And>y. y \<in> set xs \<Longrightarrow> y \<noteq> x \<Longrightarrow> f x < f y"
  shows "\<exists>rest. sort_key f xs = x # rest"
proof -
  obtain z zs where zs: "sort_key f xs = z # zs"
    using assms(1) by (cases "sort_key f xs") (auto dest: arg_cong[where f=set])
  have "sorted (map f (z # zs))" using sorted_sort_key[of f xs] zs by simp
  moreover have "x \<in> set (z # zs)" using assms(1) zs set_sort[of f xs] by simp
  ultimately have "f z \<le> f x" by auto
  moreover have "z \<in> set xs" using zs set_sort[of f xs] by (metis list.set_intros(1))
  ultimately have "z = x" using assms(2)[of z] by fastforce
  then show ?thesis using zs by simp
qed

lemma get_last_payment_after_add:
  assumes "add_payment_db d sid amt date mode = Inr (r, d')"
  shows "get_last_payment d' sid =
           Some \<lparr> receipt_no = r, student_id = sid, amount_paid = bind_float amt,
                  payment_date = date, mode_of_payment = mode \<rparr>"
proof -
  let ?new = "\<lparr> receipt_no = r, student_id = sid, amount_paid = bind_float amt,
                 payment_date = date, mode_of_payment = mode \<rparr>"
  note nr = add_payment_db_Inr[OF assms]
  note above = new_rowid_above[OF nr(1)]
  have rows: "payments_of d' sid = payments_of d sid @ [?new]"
    using nr(2) by (simp add: payments_of_def)
  have "\<exists>rest. sort_key (\<lambda>p. - receipt_no p) (payments_of d' sid) = ?new # rest"
  proof (rule head_sort_key_least)
    show "?new \<in> set (payments_of d' sid)" by (simp add: rows)
  next
    fix y assume "y \<in> set (payments_of d' sid)" and "y \<noteq> ?new"
    then have "y \<in> set (payments_of d sid)" by (auto simp: rows)
    then have "y \<in> set (payments d)" by (simp add: payments_of_def)
    then show "- receipt_no ?new < - receipt_no y" using above(3) by simp
  qed
  then show ?thesis
    by (auto simp: get_last_payment_def order_by_receipt_no_desc_def fetchone_def)
qed

subsection \<open>Students and balances\<close>

lemma students_record_payment:
  "students (snd (record_payment_and_receipt d cur t mode date)) = students d"
  by (auto simp: record_payment_and_receipt_def add_payment_db_def
           split: option.splits num_text.splits sum.splits prod.splits)

lemma students_record_all: "students (record_all d atts) = students d"
  by (induction d atts rule: record_all.induct) (simp_all add: students_record_payment)

lemma get_total_due_eq:
  "get_total_due d sid =
     (case students d sid of None \<Rightarrow> None
      | Some s \<Rightarrow> Some (total_fee s - get_total_paid d sid))"
  by (simp add: get_total_due_def or_zero_def Let_def split: option.splits)

section \<open>The claims\<close>

text \<open>
  Claim C1. For every student in the store, \<open>get_total_due\<close> is that student's
  \<open>total_fee\<close> minus \<open>get_total_paid\<close>, in the state reached by any sequence of
  presses of the payment button (accepted or not, the empty sequence included); the
  student's row is the same as before.
\<close>

theorem total_due_after_payments:
  assumes "students d sid = Some s"
  shows "students (record_all d atts) sid = Some s \<and>
         get_total_due (record_all d atts) sid =
           Some (total_fee s - get_total_paid (record_all d atts) sid)"
  using assms by (simp add: students_record_all get_total_due_eq)

theorem total_due_after_payments_witness:
  "students ledger_S1 ''S1'' = Some asha \<and>
   record_all ledger_S1 scenario = ledger_paid \<and>
   get_total_paid ledger_paid ''S1'' = 1000 \<and>
   get_total_due ledger_paid ''S1'' = Some (total_fee asha - 1000)"
proof -
  have s: "students ledger_S1 ''S1'' = Some asha" by (simp add: ledger_defs)
  have run: "record_all ledger_S1 scenario = ledger_paid" by (simp add: ledger_defs)
  have paid: "get_total_paid ledger_paid ''S1'' = 1000" by (simp add: ledger_defs)
  show ?thesis
    using total_due_after_payments[OF s, of scenario] s run paid by simp
qed

text \<open>
  Claim C2. In any run of \<open>add_payment_db\<close> calls, for whatever students, the receipt
  numbers returned are strictly increasing in call order, hence pairwise different; each
  is greater than every receipt number already in the table; the rows that were in the
  table are still there unchanged, and the new rows carry exactly the returned numbers.
\<close>

theorem receipt_numbers_increasing:
  assumes "add_payments d calls = Inr (rs, d')"
  shows "sorted_wrt (<) rs \<and> distinct rs \<and>
         (\<forall>r \<in> set rs. \<forall>p \<in> set (payments d). receipt_no p < r) \<and>
         take (length (payments d)) (payments d') = payments d \<and>
         map receipt_no (drop (length (payments d)) (payments d')) = rs"
proof -
  note props = add_payments_props[OF assms]
  from props have "sorted_wrt (<) rs" by simp
  then have "distinct rs" by (simp add: strict_sorted_iff)
  with props show ?thesis by simp
qed

theorem receipt_numbers_increasing_witness:
  "add_payments ledger_paid interleaved =
     Inr ([3, 4], ledger_paid\<lparr> payments := [receipt_1, receipt_2, receipt_3, receipt_4],
                               sqlite_sequence := 4 \<rparr>) \<and>
   sorted_wrt (<) [3, 4 :: int] \<and> distinct [3, 4 :: int] \<and>
   map receipt_no (payments ledger_paid) = [1, 2] \<and>
   map receipt_no [receipt_3, receipt_4] = [3, 4]"
proof -
  have run: "add_payments ledger_paid interleaved =
     Inr ([3, 4], ledger_paid\<lparr> payments := [receipt_1, receipt_2, receipt_3, receipt_4],
                               sqlite_sequence := 4 \<rparr>)"
    by (simp add: ledger_defs)
  show ?thesis
    using receipt_numbers_increasing[OF run] run by (simp add: ledger_defs)
qed

text \<open>
  Claim C3. A payment whose amount is strictly greater than the student's current
  \<open>get_total_due\<close> is rejected by \<open>record_payment_and_receipt\<close> with that due
  amount, and the store is returned as it was: no payment row, no receipt number, no
  change to students, payments or the sequence.
\<close>

theorem overpayment_rejected:
  assumes "get_total_due d sid = Some due" and "due < amt"
  shows "record_payment_and_receipt d (Some (sid, st)) (Number (Num amt)) mode date =
           (Exceeds_remaining due, d)"
  using assms by (simp add: record_payment_and_receipt_def float_gt_def)

theorem overpayment_rejected_witness:
  "get_total_due (ledger_S1\<lparr> payments := [receipt_1], sqlite_sequence := 1 \<rparr>) ''S1'' = Some 600 \<and>
   (600 :: real) < 650 \<and>
   record_payment_and_receipt (ledger_S1\<lparr> payments := [receipt_1], sqlite_sequence := 1 \<rparr>)
       (Some (''S1'', asha)) (Number (Num 650)) ''Cash'' ''2024-04-02 10:00:00'' =
     (Exceeds_remaining 600, ledger_S1\<lparr> payments := [receipt_1], sqlite_sequence := 1 \<rparr>)"
proof -
  have due: "get_total_due (ledger_S1\<lparr> payments := [receipt_1], sqlite_sequence := 1 \<rparr>) ''S1''
               = Some 600"
    by (simp add: ledger_defs)
  have lt: "(600 :: real) < 650" by simp
  show ?thesis
    using overpayment_rejected[OF due lt,
        where st = asha and mode = "''Cash''" and date = "''2024-04-02 10:00:00''"] due
    by simp
qed

text \<open>
  Claim C4, as stated: a student whose total fee is 0 has a due amount of 0, and every
  payment attempt for that student, whatever its amount, is rejected and stores no row.
  The first half holds; the second fails for an amount of 0: the handler asks only
  whether the amount is greater than the due amount, \<open>0 > 0\<close> is false, and the row
  is inserted under receipt number 1.
\<close>

theorem zero_fee_counterexample:
  "students ledger_S0 ''S0'' = Some ravi \<and> total_fee ravi = 0 \<and>
   get_total_due ledger_S0 ''S0'' = Some 0 \<and>
   record_payment_and_receipt ledger_S0 (get_student ledger_S0 ''S0'') (Number (Num 0))
       ''Cash'' ''2024-04-01 10:00:00'' =
     (Recorded 1
        (Some \<lparr> receipt_no = 1, student_id = ''S0'', amount_paid = Some 0,
                payment_date = ''2024-04-01 10:00:00'', mode_of_payment = ''Cash'' \<rparr>),
      ledger_S0\<lparr> payments :=
                   [\<lparr> receipt_no = 1, student_id = ''S0'', amount_paid = Some 0,
                      payment_date = ''2024-04-01 10:00:00'', mode_of_payment = ''Cash'' \<rparr>],
                 sqlite_sequence := 1 \<rparr>)"
  by (simp add: ledger_defs)

text \<open>
  Claim C4, amended: a student whose total fee is 0 and who has no payment rows has a due
  amount of 0, and every payment attempt for that student with an amount strictly greater
  than 0 is rejected as exceeding the remaining 0, the store being returned as it was.
\<close>

theorem zero_fee_positive_rejected:
  assumes "students d sid = Some s" and "total_fee s = 0" and "payments_of d sid = []"
    and "0 < amt"
  shows "get_total_due d sid = Some 0 \<and>
         record_payment_and_receipt d (Some (sid, st)) (Number (Num amt)) mode date =
           (Exceeds_remaining 0, d)"
proof -
  have "get_total_paid d sid = 0"
    using assms(3) by (simp add: get_total_paid_def sql_sum_def or_zero_def)
  then have due: "get_total_due d sid = Some 0"
    using assms(1,2) by (simp add: get_total_due_eq)
  then show ?thesis
    using assms(4) by (simp add: record_payment_and_receipt_def float_gt_def)
qed

theorem zero_fee_positive_rejected_witness:
  "students ledger_S0 ''S0'' = Some ravi \<and> total_fee ravi = 0 \<and>
   payments_of ledger_S0 ''S0'' = [] \<and> (0 :: real) < 10 \<and>
   get_total_due ledger_S0 ''S0'' = Some 0 \<and>
   record_payment_and_receipt ledger_S0 (Some (''S0'', ravi)) (Number (Num 10))
       ''Cash'' ''2024-04-01 10:00:00'' = (Exceeds_remaining 0, ledger_S0)"
proof -
  have s: "students ledger_S0 ''S0'' = Some ravi" by (simp add: ledger_defs)
  have fee: "total_fee ravi = 0" by (simp add: ravi_def)
  have none: "payments_of ledger_S0 ''S0'' = []" by (simp add: ledger_defs)
  have pos: "(0 :: real) < 10" by simp
  show ?thesis
    using zero_fee_positive_rejected[OF s fee none pos,
        where st = ravi and mode = "''Cash''" and date = "''2024-04-01 10:00:00''"]
      s fee none
    by simp
qed

text \<open>
  Claim C5, as stated: a payment with an amount of 0 or less makes \<open>add_payment_db\<close>
  fail with a validation error and stores no row. It does not: \<open>add_payment_db\<close>
  inserts an amount of -50 for S1 and returns receipt number 1, and the handler, which
  rejects only an amount above the due 1000, records it as well.
\<close>

theorem nonpositive_amount_counterexample:
  "add_payment_db ledger_S1 ''S1'' (Num (- 50)) ''2024-04-01 10:00:00'' ''Cash'' =
     Inr (1, ledger_S1\<lparr> payments :=
                          [\<lparr> receipt_no = 1, student_id = ''S1'', amount_paid = Some (- 50),
                             payment_date = ''2024-04-01 10:00:00'', mode_of_payment = ''Cash'' \<rparr>],
                        sqlite_sequence := 1 \<rparr>) \<and>
   record_payment_and_receipt ledger_S1 (Some (''S1'', asha)) (Number (Num (- 50)))
       ''Cash'' ''2024-04-01 10:00:00'' =
     (Recorded 1
        (Some \<lparr> receipt_no = 1, student_id = ''S1'', amount_paid = Some (- 50),
                payment_date = ''2024-04-01 10:00:00'', mode_of_payment = ''Cash'' \<rparr>),
      ledger_S1\<lparr> payments :=
                   [\<lparr> receipt_no = 1, student_id = ''S1'', amount_paid = Some (- 50),
                      payment_date = ''2024-04-01 10:00:00'', mode_of_payment = ''Cash'' \<rparr>],
                 sqlite_sequence := 1 \<rparr>) \<and>
   get_total_due (snd (record_payment_and_receipt ledger_S1 (Some (''S1'', asha)) (Number (Num (- 50)))
       ''Cash'' ''2024-04-01 10:00:00'')) ''S1'' = Some 1050"
  by (simp add: ledger_defs)

text \<open>
  Claim C5, amended: a payment with an amount of 0 or less, for a student whose due
  amount is not negative, is not refused. While SQLite can still assign a rowid,
  \<open>add_payment_db\<close> stores the row with that amount and returns the new receipt
  number, and \<open>record_payment_and_receipt\<close> records the payment and reads that row
  back as the student's last payment.
\<close>

theorem nonpositive_amount_stored:
  assumes "amt \<le> 0" and "get_total_due d sid = Some due" and "0 \<le> due"
    and "new_rowid d = Some r"
  shows "add_payment_db d sid (Num amt) date mode =
           Inr (r, d\<lparr> payments := payments d @
                         [\<lparr> receipt_no = r, student_id = sid, amount_paid = Some amt,
                            payment_date = date, mode_of_payment = mode \<rparr>],
                       sqlite_sequence := r \<rparr>) \<and>
         record_payment_and_receipt d (Some (sid, st)) (Number (Num amt)) mode date =
           (Recorded r
              (Some \<lparr> receipt_no = r, student_id = sid, amount_paid = Some amt,
                      payment_date = date, mode_of_payment = mode \<rparr>),
            d\<lparr> payments := payments d @
                  [\<lparr> receipt_no = r, student_id = sid, amount_paid = Some amt,
                     payment_date = date, mode_of_payment = mode \<rparr>],
                sqlite_sequence := r \<rparr>)"
proof -
  let ?d' = "d\<lparr> payments := payments d @
                  [\<lparr> receipt_no = r, student_id = sid, amount_paid = Some amt,
                     payment_date = date, mode_of_payment = mode \<rparr>],
                sqlite_sequence := r \<rparr>"
  have ins: "add_payment_db d sid (Num amt) date mode = Inr (r, ?d')"
    using assms(4) by (simp add: add_payment_db_def bind_float_def)
  have last: "get_last_payment ?d' sid =
      Some \<lparr> receipt_no = r, student_id = sid, amount_paid = Some amt,
             payment_date = date, mode_of_payment = mode \<rparr>"
    using get_last_payment_after_add[OF ins] by (simp add: bind_float_def)
  have "\<not> due < amt" using assms(1,3) by simp
  then have "record_payment_and_receipt d (Some (sid, st)) (Number (Num amt)) mode date =
      (Recorded r (get_last_payment ?d' sid), ?d')"
    using assms(2) ins by (simp add: record_payment_and_receipt_def float_gt_def)
  with ins last show ?thesis by simp
qed

theorem nonpositive_amount_stored_witness:
  "(0 :: real) \<le> 0 \<and> get_total_due ledger_paid ''S1'' = Some 0 \<and>
   new_rowid ledger_paid = Some 3 \<and>
   record_payment_and_receipt ledger_paid (Some (''S1'', asha)) (Number (Num 0))
       ''Cash'' ''2024-04-05 10:00:00'' =
     (Recorded 3
        (Some \<lparr> receipt_no = 3, student_id = ''S1'', amount_paid = Some 0,
                payment_date = ''2024-04-05 10:00:00'', mode_of_payment = ''Cash'' \<rparr>),
      ledger_paid\<lparr> payments := [receipt_1, receipt_2,
                      \<lparr> receipt_no = 3, student_id = ''S1'', amount_paid = Some 0,
                        payment_date = ''2024-04-05 10:00:00'', mode_of_payment = ''Cash'' \<rparr>],
                   sqlite_sequence := 3 \<rparr>)"
proof -
  have a: "(0 :: real) \<le> 0" by simp
  have due: "get_total_due ledger_paid ''S1'' = Some 0" by (simp add: ledger_defs)
  have r: "new_rowid ledger_paid = Some 3" by (simp add: ledger_defs)
  have ps: "payments ledger_paid = [receipt_1, receipt_2]" by (simp add: ledger_paid_def)
  show ?thesis
    using nonpositive_amount_stored[OF a due a r,
        where date = "''2024-04-05 10:00:00''" and mode = "''Cash''" and st = asha]
      due r ps
    by simp
qed

text \<open>
  Claim C6, as stated: \<open>add_student_db\<close> called with a total fee below 0 fails with
  a validation error and stores no student row. It does not: called with a fee of -5 on
  the empty ledger it stores the row, and \<open>get_student\<close> returns it.
\<close>

theorem negative_fee_counterexample:
  "add_student_db empty_db ''S1'' ''Asha'' ''X'' (- 5) None =
     empty_db\<lparr> students := [''S1'' \<mapsto>
        \<lparr> name = ''Asha'', student_class = ''X'', total_fee = - 5, photo_path = None \<rparr>] \<rparr> \<and>
   get_student (add_student_db empty_db ''S1'' ''Asha'' ''X'' (- 5) None) ''S1'' =
     Some (''S1'',
           \<lparr> name = ''Asha'', student_class = ''X'', total_fee = - 5, photo_path = None \<rparr>) \<and>
   get_total_due (add_student_db empty_db ''S1'' ''Asha'' ''X'' (- 5) None) ''S1'' = Some (- 5)"
  by (simp add: ledger_defs)

text \<open>
  Claim C6, amended: \<open>add_student_db\<close> called with a total fee below 0 does not
  fail: it stores the student row with that fee, replacing any row with the same id, and
  \<open>get_student\<close> returns the row, whose total fee is below 0. The payments table is
  not touched, so the student's due amount is that fee minus what was paid.
\<close>

theorem negative_fee_stored:
  assumes "fee < 0"
  shows "get_student (add_student_db d sid nm cls fee photo) sid =
           Some (sid, \<lparr> name = nm, student_class = cls, total_fee = fee, photo_path = photo \<rparr>) \<and>
         (\<exists>s. students (add_student_db d sid nm cls fee photo) sid = Some s \<and> total_fee s < 0) \<and>
         payments (add_student_db d sid nm cls fee photo) = payments d \<and>
         get_total_due (add_student_db d sid nm cls fee photo) sid =
           Some (fee - get_total_paid d sid)"
proof -
  let ?d' = "add_student_db d sid nm cls fee photo"
  have row: "students ?d' sid =
      Some \<lparr> name = nm, student_class = cls, total_fee = fee, photo_path = photo \<rparr>"
    by (simp add: add_student_db_def)
  have pays: "payments ?d' = payments d" by (simp add: add_student_db_def)
  then have paid: "get_total_paid ?d' sid = get_total_paid d sid"
    by (simp add: get_total_paid_def payments_of_def)
  have "get_student ?d' sid =
      Some (sid, \<lparr> name = nm, student_class = cls, total_fee = fee, photo_path = photo \<rparr>)"
    using row by (simp add: get_student_def)
  moreover have "\<exists>s. students ?d' sid = Some s \<and> total_fee s < 0"
    using row assms by simp
  moreover have "get_total_due ?d' sid = Some (fee - get_total_paid d sid)"
    using row paid by (simp add: get_total_due_eq)
  ultimately show ?thesis using pays by simp
qed

theorem negative_fee_stored_witness:
  "(- 5 :: real) < 0 \<and>
   get_student (add_student_db ledger_paid ''S1'' ''Asha'' ''X'' (- 5) None) ''S1'' =
     Some (''S1'',
           \<lparr> name = ''Asha'', student_class = ''X'', total_fee = - 5, photo_path = None \<rparr>) \<and>
   payments (add_student_db ledger_paid ''S1'' ''Asha'' ''X'' (- 5) None) =
     [receipt_1, receipt_2] \<and>
   get_total_paid ledger_paid ''S1'' = 1000 \<and>
   get_total_due (add_student_db ledger_paid ''S1'' ''Asha'' ''X'' (- 5) None) ''S1'' =
     Some (- 1005)"
proof -
  have neg: "(- 5 :: real) < 0" by simp
  have ps: "payments ledger_paid = [receipt_1, receipt_2]" by (simp add: ledger_paid_def)
  have paid: "get_total_paid ledger_paid ''S1'' = 1000" by (simp add: ledger_defs)
  show ?thesis
    using negative_fee_stored[OF neg, where d = ledger_paid and sid = "''S1''"
        and nm = "''Asha''" and cls = "''X''" and photo = None] ps paid
    by simp
qed

text \<open>
  Claim C7. For a student id that is not in the students table, \<open>get_total_due\<close>
  returns \<open>None\<close>, not a number, whatever payment rows the store holds under that id.
\<close>

theorem unknown_student_due_none:
  assumes "students d sid = None"
  shows "get_total_due d sid = None"
  using assms by (simp add: get_total_due_def Let_def)

theorem unknown_student_due_none_witness:
  "students ledger_orphan ''S2'' = None \<and>
   payments_of ledger_orphan ''S2'' = [receipt_3] \<and>
   get_total_due ledger_orphan ''S2'' = None"
proof -
  have s: "students ledger_orphan ''S2'' = None" by (simp add: ledger_defs)
  have rows: "payments_of ledger_orphan ''S2'' = [receipt_3]" by (simp add: ledger_defs)
  show ?thesis using unknown_student_due_none[OF s] s rows by simp
qed

text \<open>
  Claim C8. For a student id with no payment rows, \<open>get_total_paid\<close> returns the
  number 0, whether or not the id is in the students table. (Its result type is a
  number; it has no not-found result.)
\<close>

theorem no_payments_paid_zero:
  assumes "payments_of d sid = []"
  shows "get_total_paid d sid = 0"
  using assms by (simp add: get_total_paid_def sql_sum_def or_zero_def)

theorem no_payments_paid_zero_witness:
  "payments_of ledger_S1 ''S1'' = [] \<and> students ledger_S1 ''S1'' = Some asha \<and>
   get_total_paid ledger_S1 ''S1'' = 0 \<and>
   payments_of ledger_S1 ''S7'' = [] \<and> students ledger_S1 ''S7'' = None \<and>
   get_total_paid ledger_S1 ''S7'' = 0"
proof -
  have known: "payments_of ledger_S1 ''S1'' = []" by (simp add: ledger_defs)
  have unknown: "payments_of ledger_S1 ''S7'' = []" by (simp add: ledger_defs)
  have "students ledger_S1 ''S1'' = Some asha" and "students ledger_S1 ''S7'' = None"
    by (simp_all add: ledger_defs)
  then show ?thesis
    using no_payments_paid_zero[OF known] no_payments_paid_zero[OF unknown] known unknown
    by simp
qed

text \<open>
  Claim C9. Calling \<open>add_student_db\<close> with the id of a student already in the store
  replaces name, class, total fee and photo path by the new values, and leaves the
  payments table (the rows of that student and of every other), the sequence and the
  rows of all other students as they were.
\<close>

theorem upsert_replaces_fields:
  assumes "students d sid = Some old"
  shows "students (add_student_db d sid nm cls fee photo) sid =
           Some \<lparr> name = nm, student_class = cls, total_fee = fee, photo_path = photo \<rparr> \<and>
         get_student (add_student_db d sid nm cls fee photo) sid =
           Some (sid, \<lparr> name = nm, student_class = cls, total_fee = fee, photo_path = photo \<rparr>) \<and>
         payments (add_student_db d sid nm cls fee photo) = payments d \<and>
         sqlite_sequence (add_student_db d sid nm cls fee photo) = sqlite_sequence d \<and>
         (\<forall>other. other \<noteq> sid \<longrightarrow>
            students (add_student_db d sid nm cls fee photo) other = students d other)"
  by (simp add: add_student_db_def get_student_def)

theorem upsert_replaces_fields_witness:
  "students ledger_paid ''S1'' = Some asha \<and>
   students (add_student_db ledger_paid ''S1'' ''Asha K'' ''XI'' 1500 (Some ''student_photos/S1.png''))
       ''S1'' =
     Some \<lparr> name = ''Asha K'', student_class = ''XI'', total_fee = 1500,
            photo_path = Some ''student_photos/S1.png'' \<rparr> \<and>
   payments (add_student_db ledger_paid ''S1'' ''Asha K'' ''XI'' 1500 (Some ''student_photos/S1.png''))
     = [receipt_1, receipt_2] \<and>
   students (add_student_db ledger_paid ''S1'' ''Asha K'' ''XI'' 1500 (Some ''student_photos/S1.png''))
       ''S2'' = None"
proof -
  have s: "students ledger_paid ''S1'' = Some asha" by (simp add: ledger_defs)
  have ps: "payments ledger_paid = [receipt_1, receipt_2]" by (simp add: ledger_paid_def)
  have other: "students ledger_paid ''S2'' = None" by (simp add: ledger_defs)
  show ?thesis
    using upsert_replaces_fields[OF s, where nm = "''Asha K''" and cls = "''XI''"
        and fee = 1500 and photo = "Some ''student_photos/S1.png''"] s ps other
    by simp
qed

text \<open>
  Claim C10, as stated: in every state of the store and for every amount, when
  \<open>add_payment_db\<close> returns a receipt number, \<open>get_last_payment\<close> returns exactly
  the payment just appended. It does not when the amount is NaN, which the handler lets
  through (\<^verbatim>\<open>nan > due\<close> is false): the row is stored with a NULL amount, and the
  payment read back carries \<^verbatim>\<open>None\<close> where the appended amount was a float.
\<close>

theorem last_payment_nan_counterexample:
  "add_payment_db ledger_S1 ''S1'' NaN ''2024-04-01 10:00:00'' ''Cash'' =
     Inr (1, ledger_S1\<lparr> payments :=
                          [\<lparr> receipt_no = 1, student_id = ''S1'', amount_paid = None,
                             payment_date = ''2024-04-01 10:00:00'', mode_of_payment = ''Cash'' \<rparr>],
                        sqlite_sequence := 1 \<rparr>) \<and>
   get_last_payment
       (ledger_S1\<lparr> payments :=
                     [\<lparr> receipt_no = 1, student_id = ''S1'', amount_paid = None,
                        payment_date = ''2024-04-01 10:00:00'', mode_of_payment = ''Cash'' \<rparr>],
                   sqlite_sequence := 1 \<rparr>) ''S1'' =
     Some \<lparr> receipt_no = 1, student_id = ''S1'', amount_paid = None,
            payment_date = ''2024-04-01 10:00:00'', mode_of_payment = ''Cash'' \<rparr> \<and>
   record_payment_and_receipt ledger_S1 (Some (''S1'', asha)) (Number NaN)
       ''Cash'' ''2024-04-01 10:00:00'' =
     (Recorded 1
        (Some \<lparr> receipt_no = 1, student_id = ''S1'', amount_paid = None,
                payment_date = ''2024-04-01 10:00:00'', mode_of_payment = ''Cash'' \<rparr>),
      ledger_S1\<lparr> payments :=
                   [\<lparr> receipt_no = 1, student_id = ''S1'', amount_paid = None,
                      payment_date = ''2024-04-01 10:00:00'', mode_of_payment = ''Cash'' \<rparr>],
                 sqlite_sequence := 1 \<rparr>)"
  by (simp add: ledger_defs)

text \<open>
  Claim C10, amended: in every state of the store and for every amount that is a number
  (not NaN), when \<open>add_payment_db\<close> returns a receipt number, \<open>get_last_payment\<close>
  for the same student in the new state returns exactly the row just inserted (that
  receipt number, the student id, amount, date and mode), and no payment of that student
  has a greater receipt number.
\<close>

theorem last_payment_is_appended:
  assumes "add_payment_db d sid (Num amt) date mode = Inr (r, d')"
  shows "get_last_payment d' sid =
           Some \<lparr> receipt_no = r, student_id = sid, amount_paid = Some amt,
                  payment_date = date, mode_of_payment = mode \<rparr> \<and>
         (\<forall>p \<in> set (payments_of d' sid). receipt_no p \<le> r)"
proof -
  note nr = add_payment_db_Inr[OF assms]
  have "receipt_no p \<le> r" if "p \<in> set (payments_of d' sid)" for p
  proof -
    from that have "p \<in> set (payments d) \<or> receipt_no p = r"
      using nr(2) by (auto simp: payments_of_def)
    then show ?thesis
      using new_rowid_above(3)[OF nr(1), of p] by auto
  qed
  then show ?thesis
    using get_last_payment_after_add[OF assms] by (simp add: bind_float_def)
qed

theorem last_payment_is_appended_witness:
  "add_payment_db ledger_orphan ''S1'' (Num 25) ''2024-04-04 09:05:00'' ''Cash'' =
     Inr (4, ledger_orphan\<lparr> payments := [receipt_1, receipt_2, receipt_3, receipt_4],
                            sqlite_sequence := 4 \<rparr>) \<and>
   get_last_payment
       (ledger_orphan\<lparr> payments := [receipt_1, receipt_2, receipt_3, receipt_4],
                      sqlite_sequence := 4 \<rparr>) ''S1'' = Some receipt_4 \<and>
   payments_of
       (ledger_orphan\<lparr> payments := [receipt_1, receipt_2, receipt_3, receipt_4],
                      sqlite_sequence := 4 \<rparr>) ''S1'' = [receipt_1, receipt_2, receipt_4]"
proof -
  have ins: "add_payment_db ledger_orphan ''S1'' (Num 25) ''2024-04-04 09:05:00'' ''Cash'' =
     Inr (4, ledger_orphan\<lparr> payments := [receipt_1, receipt_2, receipt_3, receipt_4],
                            sqlite_sequence := 4 \<rparr>)"
    by (simp add: ledger_defs)
  have rows: "payments_of
       (ledger_orphan\<lparr> payments := [receipt_1, receipt_2, receipt_3, receipt_4],
                      sqlite_sequence := 4 \<rparr>) ''S1'' = [receipt_1, receipt_2, receipt_4]"
    by (simp add: ledger_defs)
  have "\<lparr> receipt_no = 4, student_id = ''S1'', amount_paid = Some 25,
          payment_date = ''2024-04-04 09:05:00'', mode_of_payment = ''Cash'' \<rparr> = receipt_4"
    by (simp add: receipt_4_def)
  then show ?thesis
    using last_payment_is_appended[OF ins] ins rows by simp
qed

end
